theory Spec2Isabelle
  imports Main "HOL-Library.Char_ord" "HOL-Library.List_Lexorder" "HOL-Library.Multiset"
begin

section \<open>The Lisbon road accidents dashboard\<close>

text \<open>
  A shallow embedding of \<^verbatim>\<open>dashboard.py\<close>: the feature engineering of
  \<^verbatim>\<open>load_data\<close>, the sidebar option lists, the boolean-mask filter that builds
  \<^verbatim>\<open>df_filtered\<close>, the early stop on an empty selection, the KPI numbers and the
  three tabulations behind the charts (\<^verbatim>\<open>hourly_data\<close>, \<^verbatim>\<open>weekday_data\<close>,
  \<^verbatim>\<open>severity_data\<close>, \<^verbatim>\<open>heatmap_data\<close>).

  A DataFrame is a list of rows plus the category lists of its two categorical columns.
  A column is the list obtained by mapping a field over the rows, and the pandas and numpy
  operations of the script work on such columns, as they do in the source. The coordinates
  \<^verbatim>\<open>latitude\<close> and \<^verbatim>\<open>longitude\<close> are floating point and feed only the map
  renderer; they are not part of the model. An integer cell is an int64 value,
  held as an integer; where the script adds such cells the 64-bit wrap-around of numpy is
  written out.
\<close>

subsection \<open>Rows and frames\<close>

text \<open>
  One row of the CSV file. A cell of a text column is \<open>None\<close> where pandas holds NaN.
  The column \<^verbatim>\<open>id\<close> is called \<open>accident_id\<close>.
\<close>

record accident =
  accident_id :: int
  day :: int
  month :: "string option"
  weekday :: "string option"
  hour :: int
  fatalities_30d :: int
  serious_injuries_30d :: int
  minor_injuries_30d :: int

text \<open>A row after feature engineering carries the two derived columns as well.\<close>

record derived = accident +
  severity :: string
  total_victims :: int

text \<open>
  The frame returned by \<^verbatim>\<open>load_data\<close>: its rows, and the categories of the
  categorical columns \<^verbatim>\<open>weekday\<close> and \<^verbatim>\<open>month\<close> (what
  \<^verbatim>\<open>.cat.categories\<close> reads). Selecting rows keeps the categories.
\<close>

record frame =
  rows :: "derived list"
  weekday_cats :: "string list"
  month_cats :: "string list"

subsection \<open>numpy and pandas primitives\<close>

text \<open>
  \<^verbatim>\<open>np.select(condlist, choicelist, default)\<close> over columns of length \<open>n\<close>:
  at each position the choice of the first condition that holds there, the default where
  none holds. The script passes three conditions and three choices.
\<close>

fun np_select :: "bool list list \<Rightarrow> 'a list \<Rightarrow> 'a \<Rightarrow> nat \<Rightarrow> 'a list" where
  "np_select (c # cs) (ch # chs) d n =
     map (\<lambda>(b, rest). if b then ch else rest) (zip c (np_select cs chs d n))"
| "np_select _ _ d n = replicate n d"

text \<open>
  \<^verbatim>\<open>pd.Categorical(values, categories=cats, ordered=True)\<close>: a value that is not
  one of the categories becomes NaN, and so does NaN itself.
\<close>

definition Categorical :: "string option list \<Rightarrow> string list \<Rightarrow> string option list" where
  "Categorical values cats =
     map (\<lambda>v. case v of None \<Rightarrow> None
                 | Some s \<Rightarrow> if s \<in> set cats then Some s else None) values"

text \<open>\<^verbatim>\<open>Series.unique()\<close>: the distinct values in order of first appearance.\<close>

definition unique :: "'a list \<Rightarrow> 'a list" where
  "unique xs = fold (\<lambda>x seen. if x \<in> set seen then seen else seen @ [x]) xs []"

text \<open>
  \<^verbatim>\<open>Series.isin(values)\<close> on a column of strings, and on a categorical column,
  where a NaN cell matches no label.
\<close>

definition isin :: "'a list \<Rightarrow> 'a list \<Rightarrow> bool list" where
  "isin col vals = map (\<lambda>v. v \<in> set vals) col"

definition cat_isin :: "string option list \<Rightarrow> string list \<Rightarrow> bool list" where
  "cat_isin col vals =
     map (\<lambda>v. case v of None \<Rightarrow> False | Some s \<Rightarrow> s \<in> set vals) col"

text \<open>The comparisons \<^verbatim>\<open>col >= k\<close> and \<^verbatim>\<open>col <= k\<close>, and the mask conjunction \<^verbatim>\<open>&\<close>.\<close>

definition ge_mask :: "int list \<Rightarrow> int \<Rightarrow> bool list" where
  "ge_mask col k = map (\<lambda>v. v \<ge> k) col"

definition le_mask :: "int list \<Rightarrow> int \<Rightarrow> bool list" where
  "le_mask col k = map (\<lambda>v. v \<le> k) col"

definition and_mask :: "bool list \<Rightarrow> bool list \<Rightarrow> bool list" where
  "and_mask a b = map (\<lambda>(x, y). x \<and> y) (zip a b)"

text \<open>Boolean indexing \<^verbatim>\<open>df[mask]\<close>: the rows whose mask entry is true, in order.\<close>

definition boolean_index :: "'a list \<Rightarrow> bool list \<Rightarrow> 'a list" where
  "boolean_index xs flags = map fst (filter snd (zip xs flags))"

text \<open>
  \<^verbatim>\<open>Series.value_counts()\<close> on a plain column: one entry per distinct value with
  the number of its occurrences, most frequent first. Entries with equal counts are kept
  in order of first appearance; no result below depends on that order.
\<close>

definition value_counts :: "'a list \<Rightarrow> ('a \<times> nat) list" where
  "value_counts col =
     sort_key (\<lambda>(v, c). - int c) (map (\<lambda>v. (v, count_list col v)) (unique col))"

text \<open>
  \<^verbatim>\<open>value_counts()\<close> on a categorical column: one entry per category, also for
  a category that no cell holds; NaN cells are not counted.
\<close>

definition cat_value_counts :: "string list \<Rightarrow> string option list \<Rightarrow> (string \<times> nat) list" where
  "cat_value_counts cats col =
     sort_key (\<lambda>(v, c). - int c) (map (\<lambda>w. (w, count_list col (Some w))) cats)"

text \<open>\<^verbatim>\<open>Series.sort_index()\<close>: the entries by ascending label.\<close>

definition sort_index :: "('a::linorder \<times> 'b) list \<Rightarrow> ('a \<times> 'b) list" where
  "sort_index s = sort_key fst s"

text \<open>
  \<^verbatim>\<open>Series.reindex(labels)\<close>: the entries at the given labels, in the order of
  the labels; a label the series does not have gets NaN.
\<close>

definition reindex :: "('a \<times> 'b) list \<Rightarrow> 'a list \<Rightarrow> ('a \<times> 'b option) list" where
  "reindex s labels = map (\<lambda>k. (k, map_of s k)) labels"

text \<open>
  An integer result stored in an int64 cell: the value modulo \<open>2 ^ 64\<close>, read as a
  signed number between \<open>- 2 ^ 63\<close> and \<open>2 ^ 63 - 1\<close>. The two constants are
  \<open>2 ^ 63\<close> and \<open>2 ^ 64\<close>.
\<close>

definition int64 :: "int \<Rightarrow> int" where
  "int64 x = (x + 9223372036854775808) mod 18446744073709551616 - 9223372036854775808"

text \<open>The addition \<^verbatim>\<open>+\<close> of two int64 columns, cell by cell.\<close>

definition add64 :: "int \<Rightarrow> int \<Rightarrow> int" where
  "add64 a b = int64 (a + b)"

text \<open>
  \<^verbatim>\<open>Series.sum()\<close> on an int64 column, which accumulates in int64, and a sum
  over counts that skips NaN as pandas sums do.
\<close>

definition series_sum :: "int list \<Rightarrow> int" where
  "series_sum col = fold (\<lambda>v acc. add64 acc v) col 0"

definition nansum :: "nat option list \<Rightarrow> nat" where
  "nansum cells = sum_list (map (\<lambda>c. case c of None \<Rightarrow> 0 | Some n \<Rightarrow> n) cells)"

subsection \<open>Feature engineering\<close>

definition weekday_order :: "string list" where
  "weekday_order =
     [''Monday'', ''Tuesday'', ''Wednesday'', ''Thursday'', ''Friday'', ''Saturday'', ''Sunday'']"

definition month_order :: "string list" where
  "month_order =
     [''Jan'', ''Feb'', ''Mar'', ''Apr'', ''May'', ''Jun'',
      ''Jul'', ''Aug'', ''Sep'', ''Oct'', ''Nov'', ''Dec'']"

text \<open>
  The part of \<^verbatim>\<open>load_data\<close> under its comment \<^verbatim>\<open>#Feature Engineering\<close>: the
  four column assignments, each computed from whole columns of the frame read from disk.
\<close>

definition feature_engineering :: "accident list \<Rightarrow> frame" where
  "feature_engineering df =
     (let conditions =
            [map (\<lambda>r. fatalities_30d r > 0) df,
             map (\<lambda>r. serious_injuries_30d r > 0) df,
             map (\<lambda>r. minor_injuries_30d r > 0) df];
          choices = [''Fatal'', ''Serious Injury'', ''Minor Injury''];
          severity_col = np_select conditions choices ''No Injury'' (length df);
          total_victims_col =
            map (\<lambda>r. add64 (add64 (fatalities_30d r) (serious_injuries_30d r))
                            (minor_injuries_30d r)) df;
          weekday_col = Categorical (map weekday df) weekday_order;
          month_col = Categorical (map month df) month_order
      in \<lparr>rows =
            map (\<lambda>(r, s, t, w, m).
                   \<lparr>accident_id = accident_id r, day = day r, month = m, weekday = w,
                    hour = hour r, fatalities_30d = fatalities_30d r,
                    serious_injuries_30d = serious_injuries_30d r,
                    minor_injuries_30d = minor_injuries_30d r,
                    severity = s, total_victims = t\<rparr>)
              (zip df (zip severity_col (zip total_victims_col (zip weekday_col month_col)))),
          weekday_cats = weekday_order,
          month_cats = month_order\<rparr>)"

text \<open>
  What the page shows when the script stops early: \<^verbatim>\<open>st.error\<close>,
  \<^verbatim>\<open>st.info\<close> and \<^verbatim>\<open>st.warning\<close> boxes.
\<close>

datatype message = Error string | Info string | Warning string

text \<open>
  \<^verbatim>\<open>load_data\<close>: the file may be missing (\<open>None\<close>), in which case the function
  reports the error and stops the script. The character \<open>CHR 0x27\<close> is the single quote
  around the file and folder names in the two messages.
\<close>

definition load_data :: "accident list option \<Rightarrow> message list + frame" where
  "load_data csv =
     (case csv of
        None \<Rightarrow>
          Inl [Error (''Error: The data file '' @ [CHR 0x27] @ ''data/Road_Accidents_Lisbon.csv''
                      @ [CHR 0x27] @ '' was not found.''),
               Info (''Please make sure the '' @ [CHR 0x27] @ ''Road_Accidents_Lisbon.csv''
                     @ [CHR 0x27] @ '' file is inside a folder named '' @ [CHR 0x27] @ ''data''
                     @ [CHR 0x27] @ ''.'')]
      | Some df \<Rightarrow> Inr (feature_engineering df))"

subsection \<open>Sidebar options and the filter\<close>

definition severity_options :: "frame \<Rightarrow> string list" where
  "severity_options df = sort (unique (map severity (rows df)))"

definition weekday_options :: "frame \<Rightarrow> string list" where
  "weekday_options df = weekday_cats df"

definition month_options :: "frame \<Rightarrow> string list" where
  "month_options df = month_cats df"

text \<open>What the four sidebar widgets return.\<close>

record criteria =
  selected_severity :: "string list"
  hour_range :: "int \<times> int"
  selected_weekdays :: "string list"
  selected_months :: "string list"

definition df_filtered :: "frame \<Rightarrow> criteria \<Rightarrow> frame" where
  "df_filtered df c =
     df\<lparr>rows :=
          boolean_index (rows df)
            (and_mask
              (and_mask
                (and_mask
                  (and_mask (isin (map severity (rows df)) (selected_severity c))
                            (cat_isin (map weekday (rows df)) (selected_weekdays c)))
                  (cat_isin (map month (rows df)) (selected_months c)))
                (ge_mask (map hour (rows df)) (fst (hour_range c))))
              (le_mask (map hour (rows df)) (snd (hour_range c))))\<rparr>"

subsection \<open>Aggregates over the filtered frame\<close>

text \<open>The four KPI numbers.\<close>

definition total_accidents :: "frame \<Rightarrow> nat" where
  "total_accidents sub = length (rows sub)"

definition total_fatalities :: "frame \<Rightarrow> int" where
  "total_fatalities sub = series_sum (map fatalities_30d (rows sub))"

definition total_serious_injuries :: "frame \<Rightarrow> int" where
  "total_serious_injuries sub = series_sum (map serious_injuries_30d (rows sub))"

definition total_minor_injuries :: "frame \<Rightarrow> int" where
  "total_minor_injuries sub = series_sum (map minor_injuries_30d (rows sub))"

text \<open>The series behind the two bar charts and the pie chart.\<close>

definition hourly_data :: "frame \<Rightarrow> (int \<times> nat) list" where
  "hourly_data sub = sort_index (value_counts (map hour (rows sub)))"

definition weekday_data :: "string list \<Rightarrow> frame \<Rightarrow> (string \<times> nat option) list" where
  "weekday_data wd_options sub =
     reindex (cat_value_counts (weekday_cats sub) (map weekday (rows sub))) wd_options"

definition severity_data :: "frame \<Rightarrow> (string \<times> nat) list" where
  "severity_data sub = value_counts (map severity (rows sub))"

text \<open>
  A pivot table: the column labels, and the rows as pairs of a row label and the cells
  under the columns. A cell is \<open>None\<close> where pandas holds NaN.
\<close>

record pivot =
  columns :: "int list"
  body :: "(string \<times> nat option list) list"

text \<open>The group keys of \<^verbatim>\<open>groupby(['weekday', 'hour'])\<close>: rows with a NaN weekday are left out.\<close>

definition group_keys :: "derived list \<Rightarrow> (string \<times> int) list" where
  "group_keys rs =
     concat (map (\<lambda>r. case weekday r of None \<Rightarrow> [] | Some w \<Rightarrow> [(w, hour r)]) rs)"

text \<open>\<^verbatim>\<open>DataFrame.dropna(how='all', axis=1)\<close>: a column survives when some row has a number in it.\<close>

definition dropna_columns :: "pivot \<Rightarrow> pivot" where
  "dropna_columns t =
     (let keep = map (\<lambda>j. list_ex (\<lambda>row. snd row ! j \<noteq> None) (body t))
                     [0..<length (columns t)]
      in \<lparr>columns = boolean_index (columns t) keep,
          body = map (\<lambda>(w, cells). (w, boolean_index cells keep)) (body t)\<rparr>)"

text \<open>
  \<^verbatim>\<open>pivot_table(index='weekday', columns='hour', values='id', aggfunc='count')\<close>.
  The columns are the hours that occur among the group keys, ascending. The script does
  not pass \<^verbatim>\<open>observed\<close>, so the default of the installed pandas decides the rows, and
  it is a parameter here. With \<open>observed = False\<close> every category is a row and a pair
  without records counts 0; with \<open>observed = True\<close> only the weekdays that occur are
  rows, in category order, and a pair without records is NaN. Every \<^verbatim>\<open>id\<close> is
  present, so the count of a group is its size.
\<close>

definition pivot_table :: "bool \<Rightarrow> frame \<Rightarrow> pivot" where
  "pivot_table observed sub =
     (let keys = group_keys (rows sub);
          hours = sort (remdups (map snd keys));
          index = (if observed then filter (\<lambda>w. w \<in> set (map fst keys)) (weekday_cats sub)
                   else weekday_cats sub);
          cell = (\<lambda>w h. let n = count_list keys (w, h)
                         in if observed \<and> n = 0 then None else Some n)
      in dropna_columns \<lparr>columns = hours, body = map (\<lambda>w. (w, map (cell w) hours)) index\<rparr>)"

text \<open>\<^verbatim>\<open>.fillna(0)\<close> and \<^verbatim>\<open>.reindex(labels)\<close> on a pivot table.\<close>

definition fillna :: "nat \<Rightarrow> pivot \<Rightarrow> pivot" where
  "fillna v t =
     t\<lparr>body := map (\<lambda>(w, cells). (w, map (\<lambda>c. case c of None \<Rightarrow> Some v | Some n \<Rightarrow> Some n) cells))
                    (body t)\<rparr>"

definition reindex_rows :: "pivot \<Rightarrow> string list \<Rightarrow> pivot" where
  "reindex_rows t labels =
     t\<lparr>body := map (\<lambda>w. (w, case map_of (body t) w of
                               None \<Rightarrow> replicate (length (columns t)) None
                             | Some cells \<Rightarrow> cells)) labels\<rparr>"

definition heatmap_data :: "bool \<Rightarrow> string list \<Rightarrow> frame \<Rightarrow> pivot" where
  "heatmap_data observed wd_options sub =
     reindex_rows (fillna 0 (pivot_table observed sub)) wd_options"

text \<open>
  Reading a pivot table: \<open>None\<close> when the table has no such row or no such column,
  otherwise the cell (itself a number or NaN). The grand total skips NaN cells.
\<close>

definition cell_at :: "pivot \<Rightarrow> string \<Rightarrow> int \<Rightarrow> nat option option" where
  "cell_at t w h =
     (case map_of (body t) w of
        None \<Rightarrow> None
      | Some cells \<Rightarrow> map_of (zip (columns t) cells) h)"

definition grand_total :: "pivot \<Rightarrow> nat" where
  "grand_total t = sum_list (map (\<lambda>(w, cells). nansum cells) (body t))"

subsection \<open>The script\<close>

text \<open>The marker colours of the map tab.\<close>

definition severity_color_map :: "string \<rightharpoonup> string" where
  "severity_color_map =
     [''Fatal'' \<mapsto> ''darkred'', ''Serious Injury'' \<mapsto> ''red'',
      ''Minor Injury'' \<mapsto> ''orange'', ''No Injury'' \<mapsto> ''lightblue'']"

definition markers :: "frame \<Rightarrow> (int \<times> string) list" where
  "markers sub =
     map (\<lambda>r. (accident_id r,
                case severity_color_map (severity r) of None \<Rightarrow> ''gray'' | Some c \<Rightarrow> c))
         (rows sub)"

text \<open>Everything the page computes once the filtered frame is known to be non-empty.\<close>

record views =
  kpi_total_accidents :: nat
  kpi_total_fatalities :: int
  kpi_total_serious_injuries :: int
  kpi_total_minor_injuries :: int
  map_markers :: "(int \<times> string) list"
  chart_hourly :: "(int \<times> nat) list"
  chart_weekday :: "(string \<times> nat option) list"
  chart_severity :: "(string \<times> nat) list"
  chart_heatmap :: pivot

datatype outcome = Stopped "message list" | Rendered views

text \<open>
  One run of the script: load, filter by the widget values, stop with a warning when
  nothing is left, otherwise compute the KPIs, the markers and the chart data.
  \<^verbatim>\<open>st.stop()\<close> ends the run there; nothing after it is executed.
\<close>

definition dashboard :: "bool \<Rightarrow> accident list option \<Rightarrow> criteria \<Rightarrow> outcome" where
  "dashboard observed csv c =
     (case load_data csv of
        Inl msgs \<Rightarrow> Stopped msgs
      | Inr df \<Rightarrow>
          let weekday_opts = weekday_options df;
              sub = df_filtered df c
          in if rows sub = []
             then Stopped [Warning
               ''No data found for the selected filter combination. Please adjust your filters.'']
             else Rendered
               \<lparr>kpi_total_accidents = total_accidents sub,
                kpi_total_fatalities = total_fatalities sub,
                kpi_total_serious_injuries = total_serious_injuries sub,
                kpi_total_minor_injuries = total_minor_injuries sub,
                map_markers = markers sub,
                chart_hourly = hourly_data sub,
                chart_weekday = weekday_data weekday_opts sub,
                chart_severity = severity_data sub,
                chart_heatmap = heatmap_data observed weekday_opts sub\<rparr>)"

subsection \<open>Sample data\<close>

text \<open>Three accidents, and a fourth whose weekday and month are not among the categories.\<close>

definition acc1 :: accident where
  "acc1 = \<lparr>accident_id = 1, day = 7, month = Some ''Mar'', weekday = Some ''Tuesday'',
           hour = 10, fatalities_30d = 0, serious_injuries_30d = 0, minor_injuries_30d = 2\<rparr>"

definition acc2 :: accident where
  "acc2 = \<lparr>accident_id = 2, day = 12, month = Some ''Mar'', weekday = Some ''Sunday'',
           hour = 8, fatalities_30d = 1, serious_injuries_30d = 0, minor_injuries_30d = 5\<rparr>"

definition acc3 :: accident where
  "acc3 = \<lparr>accident_id = 3, day = 14, month = Some ''Mar'', weekday = Some ''Tuesday'',
           hour = 10, fatalities_30d = 0, serious_injuries_30d = 0, minor_injuries_30d = 0\<rparr>"

definition acc4 :: accident where
  "acc4 = \<lparr>accident_id = 4, day = 2, month = Some ''March'', weekday = Some ''Tue'',
           hour = 10, fatalities_30d = 0, serious_injuries_30d = 1, minor_injuries_30d = 0\<rparr>"

definition sample :: "accident list" where
  "sample = [acc1, acc2, acc3, acc4]"

text \<open>The widgets left at their defaults over the full domains, and a narrow selection.\<close>

definition select_all :: criteria where
  "select_all =
     \<lparr>selected_severity = [''Fatal'', ''Minor Injury'', ''No Injury'', ''Serious Injury''],
      hour_range = (0, 23),
      selected_weekdays = weekday_order,
      selected_months = month_order\<rparr>"

definition select_tuesday_minor :: criteria where
  "select_tuesday_minor =
     \<lparr>selected_severity = [''Minor Injury''],
      hour_range = (8, 12),
      selected_weekdays = [''Tuesday''],
      selected_months = [''Mar'']\<rparr>"

text \<open>
  Accidents with very large counts: two with \<open>2 ^ 62\<close> fatalities each, and one with
  \<open>2 ^ 63 - 1\<close> fatalities, \<open>2 ^ 63 - 1\<close> serious injuries and 2 minor injuries.
\<close>

definition acc5 :: accident where
  "acc5 = \<lparr>accident_id = 5, day = 3, month = Some ''Jan'', weekday = Some ''Monday'',
           hour = 9, fatalities_30d = 4611686018427387904, serious_injuries_30d = 0,
           minor_injuries_30d = 0\<rparr>"

definition acc6 :: accident where
  "acc6 = \<lparr>accident_id = 6, day = 4, month = Some ''Jan'', weekday = Some ''Monday'',
           hour = 9, fatalities_30d = 4611686018427387904, serious_injuries_30d = 0,
           minor_injuries_30d = 0\<rparr>"

definition acc7 :: accident where
  "acc7 = \<lparr>accident_id = 7, day = 5, month = Some ''Jan'', weekday = Some ''Monday'',
           hour = 9, fatalities_30d = 9223372036854775807,
           serious_injuries_30d = 9223372036854775807, minor_injuries_30d = 2\<rparr>"

definition select_december :: criteria where
  "select_december = select_all\<lparr>selected_months := [''Dec'']\<rparr>"

section \<open>Row-wise reading of the column operations\<close>

text \<open>
  Every column of the script is a map over the rows of one frame, so each column
  operation has a reading row by row.
\<close>

lemma int64_in_range:
  "- 9223372036854775808 \<le> x \<Longrightarrow> x < 9223372036854775808 \<Longrightarrow> int64 x = x"
  by (simp add: int64_def)

lemma int64_add_left: "int64 (int64 x + y) = int64 (x + y)"
proof -
  have "(int64 x + y + 9223372036854775808) mod 18446744073709551616
      = ((x + 9223372036854775808) mod 18446744073709551616 + y) mod 18446744073709551616"
    by (simp add: int64_def)
  also have "\<dots> = (x + 9223372036854775808 + y) mod 18446744073709551616"
    by (rule mod_add_left_eq)
  also have "x + 9223372036854775808 + y = x + y + 9223372036854775808"
    by simp
  finally show ?thesis
    by (simp add: int64_def)
qed

lemma add64_twice: "add64 (add64 a b) c = int64 (a + b + c)"
  by (simp add: add64_def int64_add_left)

lemma np_select_three:
  "np_select [map p1 xs, map p2 xs, map p3 xs] [a, b, c] d (length xs) =
     map (\<lambda>x. if p1 x then a else if p2 x then b else if p3 x then c else d) xs"
  by (induction xs) simp_all

lemma zip_columns: "zip (map f xs) (map g xs) = map (\<lambda>x. (f x, g x)) xs"
  by (induction xs) simp_all

lemma zip_rows_column: "zip xs (map g xs) = map (\<lambda>x. (x, g x)) xs"
  by (induction xs) simp_all

lemma Categorical_column:
  "Categorical (map f xs) cats =
     map (\<lambda>x. case f x of None \<Rightarrow> None | Some s \<Rightarrow> if s \<in> set cats then Some s else None) xs"
  by (simp add: Categorical_def)

lemma rows_feature_engineering:
  "rows (feature_engineering df) =
     map (\<lambda>r. \<lparr>accident_id = accident_id r, day = day r,
               month = (case month r of None \<Rightarrow> None
                        | Some s \<Rightarrow> if s \<in> set month_order then Some s else None),
               weekday = (case weekday r of None \<Rightarrow> None
                          | Some s \<Rightarrow> if s \<in> set weekday_order then Some s else None),
               hour = hour r, fatalities_30d = fatalities_30d r,
               serious_injuries_30d = serious_injuries_30d r,
               minor_injuries_30d = minor_injuries_30d r,
               severity = (if fatalities_30d r > 0 then ''Fatal''
                           else if serious_injuries_30d r > 0 then ''Serious Injury''
                           else if minor_injuries_30d r > 0 then ''Minor Injury''
                           else ''No Injury''),
               total_victims = add64 (add64 (fatalities_30d r) (serious_injuries_30d r))
                                     (minor_injuries_30d r)\<rparr>) df"
  unfolding feature_engineering_def Let_def
  by (simp add: np_select_three Categorical_column zip_columns zip_rows_column
      del: np_select.simps)

lemma cats_feature_engineering:
  "weekday_cats (feature_engineering df) = weekday_order"
  "month_cats (feature_engineering df) = month_order"
  by (simp_all add: feature_engineering_def Let_def)

lemma boolean_index_column: "boolean_index xs (map p xs) = filter p xs"
  unfolding boolean_index_def by (induction xs) simp_all

lemma and_mask_columns: "and_mask (map p xs) (map q xs) = map (\<lambda>x. p x \<and> q x) xs"
  unfolding and_mask_def by (induction xs) simp_all

lemma isin_column: "isin (map f xs) vals = map (\<lambda>x. f x \<in> set vals) xs"
  by (simp add: isin_def)

lemma cat_isin_column: "cat_isin (map f xs) vals = map (\<lambda>x. f x \<in> Some ` set vals) xs"
  unfolding cat_isin_def by (auto split: option.splits)

lemma ge_mask_column: "ge_mask (map f xs) k = map (\<lambda>x. k \<le> f x) xs"
  by (simp add: ge_mask_def)

lemma le_mask_column: "le_mask (map f xs) k = map (\<lambda>x. f x \<le> k) xs"
  by (simp add: le_mask_def)

lemma rows_df_filtered:
  "rows (df_filtered df c) =
     filter (\<lambda>r. severity r \<in> set (selected_severity c)
                \<and> weekday r \<in> Some ` set (selected_weekdays c)
                \<and> month r \<in> Some ` set (selected_months c)
                \<and> fst (hour_range c) \<le> hour r \<and> hour r \<le> snd (hour_range c)) (rows df)"
  unfolding df_filtered_def
  by (simp add: isin_column cat_isin_column ge_mask_column le_mask_column and_mask_columns
      boolean_index_column)

lemma cats_df_filtered:
  "weekday_cats (df_filtered df c) = weekday_cats df"
  "month_cats (df_filtered df c) = month_cats df"
  by (simp_all add: df_filtered_def)

text \<open>The sample frame after feature engineering.\<close>

lemma sample_rows:
  "rows (feature_engineering sample) =
    [\<lparr>accident_id = 1, day = 7, month = Some ''Mar'', weekday = Some ''Tuesday'', hour = 10,
      fatalities_30d = 0, serious_injuries_30d = 0, minor_injuries_30d = 2,
      severity = ''Minor Injury'', total_victims = 2\<rparr>,
     \<lparr>accident_id = 2, day = 12, month = Some ''Mar'', weekday = Some ''Sunday'', hour = 8,
      fatalities_30d = 1, serious_injuries_30d = 0, minor_injuries_30d = 5,
      severity = ''Fatal'', total_victims = 6\<rparr>,
     \<lparr>accident_id = 3, day = 14, month = Some ''Mar'', weekday = Some ''Tuesday'', hour = 10,
      fatalities_30d = 0, serious_injuries_30d = 0, minor_injuries_30d = 0,
      severity = ''No Injury'', total_victims = 0\<rparr>,
     \<lparr>accident_id = 4, day = 2, month = None, weekday = None, hour = 10,
      fatalities_30d = 0, serious_injuries_30d = 1, minor_injuries_30d = 0,
      severity = ''Serious Injury'', total_victims = 1\<rparr>]"
  by (simp add: rows_feature_engineering sample_def acc1_def acc2_def acc3_def acc4_def
      weekday_order_def month_order_def add64_def int64_def)

section \<open>Derived fields\<close>

text \<open>
  Claim C1. The derived \<open>severity\<close> of every row follows the priority rule, first match
  winning: Fatal when there is a fatality, else Serious Injury when there is a serious
  injury, else Minor Injury when there is a minor injury, else No Injury. The derived
  column lines up with the input rows position by position. No assumption on the sign of
  the counts is needed.
\<close>

theorem severity_priority_rule:
  "map severity (rows (feature_engineering df)) =
     map (\<lambda>r. if fatalities_30d r > 0 then ''Fatal''
               else if serious_injuries_30d r > 0 then ''Serious Injury''
               else if minor_injuries_30d r > 0 then ''Minor Injury''
               else ''No Injury'') df
   \<and> (\<forall>r \<in> set (rows (feature_engineering df)).
         severity r = (if fatalities_30d r > 0 then ''Fatal''
                       else if serious_injuries_30d r > 0 then ''Serious Injury''
                       else if minor_injuries_30d r > 0 then ''Minor Injury''
                       else ''No Injury''))"
  by (auto simp add: rows_feature_engineering)

text \<open>One fatality and five minor injuries give Fatal.\<close>

theorem severity_priority_rule_witness:
  "fatalities_30d acc2 = 1 \<and> minor_injuries_30d acc2 = 5
   \<and> map severity (rows (feature_engineering [acc2])) = [''Fatal'']"
  using severity_priority_rule [of "[acc2]"] by (simp add: acc2_def)

lemma derived_row:
  assumes "r \<in> set (rows (feature_engineering df))"
  shows "total_victims r =
           int64 (fatalities_30d r + serious_injuries_30d r + minor_injuries_30d r)"
    and "severity r = (if fatalities_30d r > 0 then ''Fatal''
                       else if serious_injuries_30d r > 0 then ''Serious Injury''
                       else if minor_injuries_30d r > 0 then ''Minor Injury''
                       else ''No Injury'')"
  using assms by (auto simp add: rows_feature_engineering add64_twice)

text \<open>
  Claim C9, as the script has it. The total is an int64 sum. On a row with non-negative
  victim counts whose sum is below \<open>2 ^ 63\<close> the total is that sum; it is zero exactly
  when the severity is No Injury, and positive exactly when the severity is one of the
  three injury classes.
\<close>

theorem total_victims_zero_iff_no_injury_below_wrap:
  "\<forall>r \<in> set (rows (feature_engineering df)).
     0 \<le> fatalities_30d r \<and> 0 \<le> serious_injuries_30d r \<and> 0 \<le> minor_injuries_30d r
     \<and> fatalities_30d r + serious_injuries_30d r + minor_injuries_30d r < 9223372036854775808 \<longrightarrow>
       total_victims r = fatalities_30d r + serious_injuries_30d r + minor_injuries_30d r
       \<and> (total_victims r = 0 \<longleftrightarrow> severity r = ''No Injury'')
       \<and> (total_victims r > 0 \<longleftrightarrow>
            severity r \<in> {''Fatal'', ''Serious Injury'', ''Minor Injury''})"
proof (intro ballI impI)
  fix r
  assume r: "r \<in> set (rows (feature_engineering df))"
    and h: "0 \<le> fatalities_30d r \<and> 0 \<le> serious_injuries_30d r \<and> 0 \<le> minor_injuries_30d r
      \<and> fatalities_30d r + serious_injuries_30d r + minor_injuries_30d r < 9223372036854775808"
  from h have "int64 (fatalities_30d r + serious_injuries_30d r + minor_injuries_30d r)
      = fatalities_30d r + serious_injuries_30d r + minor_injuries_30d r"
    by (intro int64_in_range) simp_all
  with derived_row(1) [OF r]
  have t: "total_victims r = fatalities_30d r + serious_injuries_30d r + minor_injuries_30d r"
    by simp
  from h show "total_victims r = fatalities_30d r + serious_injuries_30d r + minor_injuries_30d r
       \<and> (total_victims r = 0 \<longleftrightarrow> severity r = ''No Injury'')
       \<and> (total_victims r > 0 \<longleftrightarrow>
            severity r \<in> {''Fatal'', ''Serious Injury'', ''Minor Injury''})"
    unfolding t derived_row(2) [OF r] by auto
qed

theorem total_victims_zero_iff_no_injury_below_wrap_witness:
  "0 \<le> fatalities_30d (rows (feature_engineering [acc3, acc2]) ! 0)
   \<and> 0 \<le> serious_injuries_30d (rows (feature_engineering [acc3, acc2]) ! 0)
   \<and> 0 \<le> minor_injuries_30d (rows (feature_engineering [acc3, acc2]) ! 0)
   \<and> fatalities_30d (rows (feature_engineering [acc3, acc2]) ! 0)
       + serious_injuries_30d (rows (feature_engineering [acc3, acc2]) ! 0)
       + minor_injuries_30d (rows (feature_engineering [acc3, acc2]) ! 0) < 9223372036854775808
   \<and> total_victims (rows (feature_engineering [acc3, acc2]) ! 0) = 0
   \<and> severity (rows (feature_engineering [acc3, acc2]) ! 0) = ''No Injury''
   \<and> 0 \<le> fatalities_30d (rows (feature_engineering [acc3, acc2]) ! 1)
   \<and> 0 \<le> serious_injuries_30d (rows (feature_engineering [acc3, acc2]) ! 1)
   \<and> 0 \<le> minor_injuries_30d (rows (feature_engineering [acc3, acc2]) ! 1)
   \<and> fatalities_30d (rows (feature_engineering [acc3, acc2]) ! 1)
       + serious_injuries_30d (rows (feature_engineering [acc3, acc2]) ! 1)
       + minor_injuries_30d (rows (feature_engineering [acc3, acc2]) ! 1) < 9223372036854775808
   \<and> total_victims (rows (feature_engineering [acc3, acc2]) ! 1) = 6
   \<and> severity (rows (feature_engineering [acc3, acc2]) ! 1) = ''Fatal''"
  using total_victims_zero_iff_no_injury_below_wrap [of "[acc3, acc2]"]
  by (simp add: rows_feature_engineering acc2_def acc3_def add64_def int64_def)

text \<open>
  Against claim C9 as stated: the row with \<open>2 ^ 63 - 1\<close> fatalities, \<open>2 ^ 63 - 1\<close>
  serious injuries and 2 minor injuries has non-negative counts, its int64 total wraps
  to 0, and its severity is Fatal.
\<close>

theorem total_victims_wraps_to_zero:
  "0 \<le> fatalities_30d (rows (feature_engineering [acc7]) ! 0)
   \<and> 0 \<le> serious_injuries_30d (rows (feature_engineering [acc7]) ! 0)
   \<and> 0 \<le> minor_injuries_30d (rows (feature_engineering [acc7]) ! 0)
   \<and> total_victims (rows (feature_engineering [acc7]) ! 0) = 0
   \<and> severity (rows (feature_engineering [acc7]) ! 0) = ''Fatal''
   \<and> severity (rows (feature_engineering [acc7]) ! 0) \<noteq> ''No Injury''"
  by (simp add: rows_feature_engineering acc7_def add64_def int64_def)

section \<open>The filter\<close>

text \<open>
  Claim C2. The filtered frame holds exactly the rows whose severity is among the selected
  severities, whose weekday is among the selected weekdays, whose month is among the
  selected months and whose hour lies in the inclusive hour range, in the order they have
  in the input.
\<close>

theorem filter_is_conjunction_in_order:
  "rows (df_filtered df c) =
     filter (\<lambda>r. severity r \<in> set (selected_severity c)
                \<and> weekday r \<in> Some ` set (selected_weekdays c)
                \<and> month r \<in> Some ` set (selected_months c)
                \<and> fst (hour_range c) \<le> hour r \<and> hour r \<le> snd (hour_range c)) (rows df)
   \<and> (r \<in> set (rows (df_filtered df c)) \<longleftrightarrow>
        r \<in> set (rows df)
        \<and> severity r \<in> set (selected_severity c)
        \<and> weekday r \<in> Some ` set (selected_weekdays c)
        \<and> month r \<in> Some ` set (selected_months c)
        \<and> fst (hour_range c) \<le> hour r \<and> hour r \<le> snd (hour_range c))"
  by (simp add: rows_df_filtered)

theorem filter_is_conjunction_in_order_witness:
  "map accident_id (rows (df_filtered (feature_engineering sample) select_all)) = [1, 2, 3]
   \<and> map accident_id (rows (df_filtered (feature_engineering sample) select_tuesday_minor)) = [1]"
  using filter_is_conjunction_in_order [of "feature_engineering sample" select_all]
    filter_is_conjunction_in_order [of "feature_engineering sample" select_tuesday_minor]
  by (simp add: sample_rows select_all_def select_tuesday_minor_def weekday_order_def
      month_order_def)

text \<open>
  Claim C10. A raw row whose weekday (or month) is not one of the seven (twelve) labels
  gets a missing weekday (month) in feature engineering, and its derived row is in no
  filtered frame, whatever the criteria select.
\<close>

theorem unknown_label_never_selected:
  assumes "i < length df"
    and "weekday (df ! i) \<notin> Some ` set weekday_order \<or> month (df ! i) \<notin> Some ` set month_order"
  shows "(weekday (df ! i) \<notin> Some ` set weekday_order \<longrightarrow>
            weekday (rows (feature_engineering df) ! i) = None)
       \<and> (month (df ! i) \<notin> Some ` set month_order \<longrightarrow>
            month (rows (feature_engineering df) ! i) = None)
       \<and> rows (feature_engineering df) ! i \<notin> set (rows (df_filtered (feature_engineering df) c))"
proof -
  let ?r = "rows (feature_engineering df) ! i"
  have wd: "weekday (df ! i) \<notin> Some ` set weekday_order \<Longrightarrow> weekday ?r = None"
    using assms(1) by (auto simp add: rows_feature_engineering split: option.splits)
  have mo: "month (df ! i) \<notin> Some ` set month_order \<Longrightarrow> month ?r = None"
    using assms(1) by (auto simp add: rows_feature_engineering split: option.splits)
  have "weekday ?r = None \<or> month ?r = None"
    using assms(2) wd mo by auto
  then have "?r \<notin> set (rows (df_filtered (feature_engineering df) c))"
    by (auto simp add: rows_df_filtered)
  with wd mo show ?thesis by simp
qed

text \<open>The fourth sample row has the weekday Tue; every label of the domain is selected.\<close>

theorem unknown_label_never_selected_witness:
  "(3::nat) < length sample
   \<and> weekday (sample ! 3) = Some ''Tue'' \<and> weekday (sample ! 3) \<notin> Some ` set weekday_order
   \<and> weekday (rows (feature_engineering sample) ! 3) = None
   \<and> rows (feature_engineering sample) ! 3
        \<notin> set (rows (df_filtered (feature_engineering sample) select_all))"
proof -
  have len: "(3::nat) < length sample"
    by (simp add: sample_def)
  have out: "weekday (sample ! 3) \<notin> Some ` set weekday_order
             \<or> month (sample ! 3) \<notin> Some ` set month_order"
    by (simp add: sample_def acc4_def weekday_order_def)
  have "weekday (sample ! 3) = Some ''Tue''"
    by (simp add: sample_def acc4_def)
  moreover have "weekday (sample ! 3) \<notin> Some ` set weekday_order"
    by (simp add: sample_def acc4_def weekday_order_def)
  ultimately show ?thesis
    using len unknown_label_never_selected [OF len out, of select_all] by blast
qed

section \<open>The run of the script\<close>

lemma sample_filtered_rows:
  "rows (df_filtered (feature_engineering sample) select_all) =
    [\<lparr>accident_id = 1, day = 7, month = Some ''Mar'', weekday = Some ''Tuesday'', hour = 10,
      fatalities_30d = 0, serious_injuries_30d = 0, minor_injuries_30d = 2,
      severity = ''Minor Injury'', total_victims = 2\<rparr>,
     \<lparr>accident_id = 2, day = 12, month = Some ''Mar'', weekday = Some ''Sunday'', hour = 8,
      fatalities_30d = 1, serious_injuries_30d = 0, minor_injuries_30d = 5,
      severity = ''Fatal'', total_victims = 6\<rparr>,
     \<lparr>accident_id = 3, day = 14, month = Some ''Mar'', weekday = Some ''Tuesday'', hour = 10,
      fatalities_30d = 0, serious_injuries_30d = 0, minor_injuries_30d = 0,
      severity = ''No Injury'', total_victims = 0\<rparr>]"
  by (simp add: rows_df_filtered sample_rows select_all_def weekday_order_def month_order_def)

lemma sample_december_rows:
  "rows (df_filtered (feature_engineering sample) select_december) = []"
  by (simp add: rows_df_filtered sample_rows select_december_def select_all_def
      weekday_order_def month_order_def)

lemma fold_add64:
  "fold (\<lambda>v acc. add64 acc v) col (int64 a) = int64 (a + sum_list col)"
  by (induction col arbitrary: a) (simp_all add: add64_def int64_add_left add.assoc)

lemma series_sum_int64: "series_sum col = int64 (sum_list col)"
  using fold_add64 [of col 0] by (simp add: series_sum_def int64_def)

lemma overflow_filtered_rows:
  "rows (df_filtered (feature_engineering [acc5, acc6]) select_all) =
    [\<lparr>accident_id = 5, day = 3, month = Some ''Jan'', weekday = Some ''Monday'', hour = 9,
      fatalities_30d = 4611686018427387904, serious_injuries_30d = 0, minor_injuries_30d = 0,
      severity = ''Fatal'', total_victims = 4611686018427387904\<rparr>,
     \<lparr>accident_id = 6, day = 4, month = Some ''Jan'', weekday = Some ''Monday'', hour = 9,
      fatalities_30d = 4611686018427387904, serious_injuries_30d = 0, minor_injuries_30d = 0,
      severity = ''Fatal'', total_victims = 4611686018427387904\<rparr>]"
  by (simp add: rows_df_filtered rows_feature_engineering acc5_def acc6_def select_all_def
      weekday_order_def month_order_def add64_def int64_def)

lemma dashboard_loaded:
  "dashboard observed (Some raws) c =
     (let df = feature_engineering raws; sub = df_filtered df c
      in if rows sub = []
         then Stopped [Warning
           ''No data found for the selected filter combination. Please adjust your filters.'']
         else Rendered
           \<lparr>kpi_total_accidents = total_accidents sub,
            kpi_total_fatalities = total_fatalities sub,
            kpi_total_serious_injuries = total_serious_injuries sub,
            kpi_total_minor_injuries = total_minor_injuries sub,
            map_markers = markers sub,
            chart_hourly = hourly_data sub,
            chart_weekday = weekday_data (weekday_options df) sub,
            chart_severity = severity_data sub,
            chart_heatmap = heatmap_data observed (weekday_options df) sub\<rparr>)"
  by (simp add: dashboard_def load_data_def Let_def)

text \<open>
  Claim C6, as the script has it. When the page is rendered, the four KPI numbers are the
  number of rows of the filtered frame and the int64 sums of the three victim columns
  over the rows of the filtered frame, not over the frame that was loaded. An int64 sum
  is the exact sum brought into the signed 64-bit range, so it is the exact sum whenever
  the exact sum lies between \<open>- 2 ^ 63\<close> and \<open>2 ^ 63 - 1\<close>.
\<close>

theorem kpis_are_int64_sums_over_filtered_rows:
  assumes "dashboard observed (Some raws) c = Rendered v"
  shows "kpi_total_accidents v = length (rows (df_filtered (feature_engineering raws) c))
       \<and> kpi_total_fatalities v =
           int64 (\<Sum>r\<leftarrow>rows (df_filtered (feature_engineering raws) c). fatalities_30d r)
       \<and> kpi_total_serious_injuries v =
           int64 (\<Sum>r\<leftarrow>rows (df_filtered (feature_engineering raws) c). serious_injuries_30d r)
       \<and> kpi_total_minor_injuries v =
           int64 (\<Sum>r\<leftarrow>rows (df_filtered (feature_engineering raws) c). minor_injuries_30d r)
       \<and> (- 9223372036854775808
             \<le> (\<Sum>r\<leftarrow>rows (df_filtered (feature_engineering raws) c). fatalities_30d r)
           \<and> (\<Sum>r\<leftarrow>rows (df_filtered (feature_engineering raws) c). fatalities_30d r)
             < 9223372036854775808 \<longrightarrow>
           kpi_total_fatalities v =
             (\<Sum>r\<leftarrow>rows (df_filtered (feature_engineering raws) c). fatalities_30d r))
       \<and> (- 9223372036854775808
             \<le> (\<Sum>r\<leftarrow>rows (df_filtered (feature_engineering raws) c). serious_injuries_30d r)
           \<and> (\<Sum>r\<leftarrow>rows (df_filtered (feature_engineering raws) c). serious_injuries_30d r)
             < 9223372036854775808 \<longrightarrow>
           kpi_total_serious_injuries v =
             (\<Sum>r\<leftarrow>rows (df_filtered (feature_engineering raws) c). serious_injuries_30d r))
       \<and> (- 9223372036854775808
             \<le> (\<Sum>r\<leftarrow>rows (df_filtered (feature_engineering raws) c). minor_injuries_30d r)
           \<and> (\<Sum>r\<leftarrow>rows (df_filtered (feature_engineering raws) c). minor_injuries_30d r)
             < 9223372036854775808 \<longrightarrow>
           kpi_total_minor_injuries v =
             (\<Sum>r\<leftarrow>rows (df_filtered (feature_engineering raws) c). minor_injuries_30d r))"
proof -
  let ?sub = "df_filtered (feature_engineering raws) c"
  from assms have v: "v =
     \<lparr>kpi_total_accidents = total_accidents ?sub,
      kpi_total_fatalities = total_fatalities ?sub,
      kpi_total_serious_injuries = total_serious_injuries ?sub,
      kpi_total_minor_injuries = total_minor_injuries ?sub,
      map_markers = markers ?sub,
      chart_hourly = hourly_data ?sub,
      chart_weekday = weekday_data (weekday_options (feature_engineering raws)) ?sub,
      chart_severity = severity_data ?sub,
      chart_heatmap = heatmap_data observed (weekday_options (feature_engineering raws)) ?sub\<rparr>"
    by (simp add: dashboard_loaded Let_def split: if_splits)
  have n: "kpi_total_accidents v = length (rows ?sub)"
    by (subst v) (simp add: total_accidents_def)
  have f: "kpi_total_fatalities v = int64 (\<Sum>r\<leftarrow>rows ?sub. fatalities_30d r)"
    by (subst v) (simp add: total_fatalities_def series_sum_int64)
  have s: "kpi_total_serious_injuries v = int64 (\<Sum>r\<leftarrow>rows ?sub. serious_injuries_30d r)"
    by (subst v) (simp add: total_serious_injuries_def series_sum_int64)
  have m: "kpi_total_minor_injuries v = int64 (\<Sum>r\<leftarrow>rows ?sub. minor_injuries_30d r)"
    by (subst v) (simp add: total_minor_injuries_def series_sum_int64)
  from n f s m show ?thesis
    by (simp add: int64_in_range)
qed

theorem kpis_are_int64_sums_over_filtered_rows_witness:
  "\<exists>v. dashboard False (Some sample) select_all = Rendered v
       \<and> kpi_total_accidents v = 3 \<and> kpi_total_fatalities v = 1
       \<and> kpi_total_serious_injuries v = 0 \<and> kpi_total_minor_injuries v = 7"
proof -
  obtain v where v: "dashboard False (Some sample) select_all = Rendered v"
    by (simp add: dashboard_loaded Let_def sample_filtered_rows)
  from kpis_are_int64_sums_over_filtered_rows [OF v] have
    "kpi_total_accidents v = 3 \<and> kpi_total_fatalities v = 1
     \<and> kpi_total_serious_injuries v = 0 \<and> kpi_total_minor_injuries v = 7"
    by (simp add: sample_filtered_rows)
  with v show ?thesis by blast
qed

text \<open>
  Against claim C6 as stated: with two accidents of \<open>2 ^ 62\<close> fatalities each loaded and
  both selected, the exact sum of the fatalities is \<open>2 ^ 63\<close> and the fatalities KPI is
  \<open>- 2 ^ 63\<close>.
\<close>

theorem kpi_sum_wraps:
  "length (rows (df_filtered (feature_engineering [acc5, acc6]) select_all)) = 2
   \<and> (\<Sum>r\<leftarrow>rows (df_filtered (feature_engineering [acc5, acc6]) select_all). fatalities_30d r)
       = 9223372036854775808
   \<and> total_fatalities (df_filtered (feature_engineering [acc5, acc6]) select_all)
       = - 9223372036854775808"
  by (simp add: overflow_filtered_rows total_fatalities_def series_sum_def add64_def int64_def)

text \<open>
  Claim C7. When the filter leaves no row, the run ends with the warning box and carries
  no KPI, marker or chart data; that outcome differs from the one for a missing file.
  KPIs, markers and chart data exist exactly when the filtered frame has a row.
\<close>

theorem empty_selection_stops_with_warning:
  "(rows (df_filtered (feature_engineering raws) c) = [] \<longrightarrow>
      dashboard observed (Some raws) c = Stopped [Warning
        ''No data found for the selected filter combination. Please adjust your filters.''])
   \<and> (rows (df_filtered (feature_engineering raws) c) \<noteq> [] \<longrightarrow>
        (\<exists>v. dashboard observed (Some raws) c = Rendered v))
   \<and> ((\<exists>v. dashboard observed (Some raws) c = Rendered v) \<longrightarrow>
        rows (df_filtered (feature_engineering raws) c) \<noteq> [])
   \<and> dashboard observed (Some raws) c \<noteq> dashboard observed None c"
  by (simp add: dashboard_loaded Let_def) (simp add: dashboard_def load_data_def)

theorem empty_selection_stops_with_warning_witness:
  "rows (df_filtered (feature_engineering sample) select_december) = []
   \<and> dashboard True (Some sample) select_december = Stopped [Warning
        ''No data found for the selected filter combination. Please adjust your filters.'']
   \<and> rows (df_filtered (feature_engineering sample) select_all) \<noteq> []
   \<and> (\<exists>v. dashboard True (Some sample) select_all = Rendered v)"
  using empty_selection_stops_with_warning [of sample select_december True]
    empty_selection_stops_with_warning [of sample select_all True]
  by (simp add: sample_december_rows sample_filtered_rows)

section \<open>Sidebar options\<close>

lemma fold_unique_step:
  "set (fold (\<lambda>x seen. if x \<in> set seen then seen else seen @ [x]) xs acc) = set acc \<union> set xs
   \<and> (distinct acc \<longrightarrow>
        distinct (fold (\<lambda>x seen. if x \<in> set seen then seen else seen @ [x]) xs acc))"
  by (induction xs arbitrary: acc) auto

lemma set_unique: "set (unique xs) = set xs"
  by (simp add: unique_def fold_unique_step)

lemma distinct_unique: "distinct (unique xs)"
  using fold_unique_step [of xs "[]"] by (simp add: unique_def)

lemma set_severity_options: "set (severity_options df) = severity ` set (rows df)"
  by (simp add: severity_options_def set_unique)

text \<open>
  Claim C4, as the script has it. The weekday selector offers the seven weekdays Monday
  to Sunday and the month selector the twelve months Jan to Dec, whatever the data holds.
  The severity selector offers the severity labels that occur in the loaded data, each
  once, in ascending string order; a label that no row carries is not offered.
\<close>

theorem option_lists:
  "weekday_options (feature_engineering raws) =
     [''Monday'', ''Tuesday'', ''Wednesday'', ''Thursday'', ''Friday'', ''Saturday'', ''Sunday'']
   \<and> month_options (feature_engineering raws) =
     [''Jan'', ''Feb'', ''Mar'', ''Apr'', ''May'', ''Jun'',
      ''Jul'', ''Aug'', ''Sep'', ''Oct'', ''Nov'', ''Dec'']
   \<and> set (severity_options (feature_engineering raws)) =
       severity ` set (rows (feature_engineering raws))
   \<and> sorted (severity_options (feature_engineering raws))
   \<and> distinct (severity_options (feature_engineering raws))"
proof -
  have "sorted (severity_options (feature_engineering raws))"
    unfolding severity_options_def by (rule sorted_sort)
  moreover have "distinct (severity_options (feature_engineering raws))"
    unfolding severity_options_def by (simp only: distinct_sort distinct_unique)
  ultimately show ?thesis
    by (simp add: weekday_options_def month_options_def cats_feature_engineering
      weekday_order_def month_order_def set_severity_options)
qed

theorem option_lists_witness:
  "length (weekday_options (feature_engineering sample)) = 7
   \<and> length (month_options (feature_engineering sample)) = 12
   \<and> set (severity_options (feature_engineering sample)) =
       {''Fatal'', ''Serious Injury'', ''Minor Injury'', ''No Injury''}
   \<and> set (severity_options (feature_engineering [acc3])) = {''No Injury''}"
proof -
  have a: "severity ` set (rows (feature_engineering sample)) =
      {''Fatal'', ''Serious Injury'', ''Minor Injury'', ''No Injury''}"
    by (simp add: sample_rows insert_commute)
  have b: "severity ` set (rows (feature_engineering [acc3])) = {''No Injury''}"
    by (simp add: rows_feature_engineering acc3_def)
  from option_lists [of sample] option_lists [of "[acc3]"] a b show ?thesis
    by simp
qed

text \<open>
  Against claim C4 as stated: with a single accident without victims loaded, the severity
  selector offers No Injury alone, and Fatal is not among its options.
\<close>

theorem severity_options_observed_only:
  "severity_options (feature_engineering [acc3]) = [''No Injury'']
   \<and> ''Fatal'' \<notin> set (severity_options (feature_engineering [acc3]))"
  by (simp add: severity_options_def unique_def rows_feature_engineering acc3_def)

section \<open>Chart data\<close>

lemma distinct_keys_sort_key: "distinct (map f (sort_key k xs)) = distinct (map f xs)"
  by (rule mset_eq_imp_distinct_iff) simp

lemma count_list_column: "count_list (map f xs) y = length (filter (\<lambda>x. f x = y) xs)"
  by (induction xs) simp_all

lemma set_value_counts: "set (value_counts col) = (\<lambda>v. (v, count_list col v)) ` set col"
  by (simp add: value_counts_def set_unique)

lemma distinct_keys_value_counts: "distinct (map fst (value_counts col))"
  by (simp add: value_counts_def distinct_keys_sort_key comp_def distinct_unique)

lemma hourly_data_hours:
  "map fst (hourly_data sub) = sorted_list_of_set (hour ` set (rows sub))"
proof -
  let ?H = "map fst (hourly_data sub)"
  have "sorted ?H"
    by (simp add: hourly_data_def sort_index_def)
  moreover have "distinct ?H"
    by (simp add: hourly_data_def sort_index_def distinct_keys_sort_key distinct_keys_value_counts)
  moreover have "set ?H = hour ` set (rows sub)"
    by (simp add: hourly_data_def sort_index_def set_value_counts image_image)
  ultimately show ?thesis
    by (metis sorted_list_of_set.idem_if_sorted_distinct)
qed

lemma hourly_data_counts:
  "(h, n) \<in> set (hourly_data sub) \<Longrightarrow>
     n = length (filter (\<lambda>r. hour r = h) (rows sub)) \<and> 0 < n"
  by (auto simp add: hourly_data_def sort_index_def set_value_counts count_list_column
      filter_empty_conv)

lemma sample_tuesday_minor_rows:
  "rows (df_filtered (feature_engineering sample) select_tuesday_minor) =
    [\<lparr>accident_id = 1, day = 7, month = Some ''Mar'', weekday = Some ''Tuesday'', hour = 10,
      fatalities_30d = 0, serious_injuries_30d = 0, minor_injuries_30d = 2,
      severity = ''Minor Injury'', total_victims = 2\<rparr>]"
  by (simp add: rows_df_filtered sample_rows select_tuesday_minor_def)

text \<open>
  Claim C3, as the script has it. The hourly series has one entry for each hour that
  occurs in the filtered frame, in ascending order of the hour, and the entry holds the
  number of rows with that hour, which is positive. An hour without rows has no entry.
\<close>

theorem hourly_data_observed_hours_ascending:
  "map fst (hourly_data sub) = sorted_list_of_set (hour ` set (rows sub))
   \<and> (\<forall>(h, n) \<in> set (hourly_data sub).
         n = length (filter (\<lambda>r. hour r = h) (rows sub)) \<and> 0 < n)"
  using hourly_data_hours hourly_data_counts by blast

theorem hourly_data_observed_hours_ascending_witness:
  "hourly_data (df_filtered (feature_engineering sample) select_all) = [(8, 1), (10, 2)]
   \<and> sorted_list_of_set (hour ` set (rows (df_filtered (feature_engineering sample) select_all)))
       = [8, 10]"
proof -
  have "hourly_data (df_filtered (feature_engineering sample) select_all) = [(8, 1), (10, 2)]"
    by (simp add: hourly_data_def sort_index_def value_counts_def unique_def
        sample_filtered_rows)
  with hourly_data_observed_hours_ascending
    [of "df_filtered (feature_engineering sample) select_all"]
  show ?thesis by simp
qed

text \<open>
  Against claim C3 as stated: for the selection that keeps one accident at 10 o'clock the
  hourly series is the single entry for hour 10, and hour 0 has no entry.
\<close>

theorem hourly_data_is_sparse:
  "hourly_data (df_filtered (feature_engineering sample) select_tuesday_minor) = [(10, 1)]
   \<and> 0 \<notin> fst ` set (hourly_data (df_filtered (feature_engineering sample) select_tuesday_minor))"
  by (simp add: hourly_data_def sort_index_def value_counts_def unique_def
      sample_tuesday_minor_rows)

section \<open>The pivot table behind the heatmap\<close>

text \<open>
  When every weekday of the frame is one of its categories, which feature engineering
  establishes and filtering keeps, no column of the pivot table is dropped for being all
  NaN, and the table can be written down row by row.
\<close>

lemma boolean_index_all:
  "length flags = length xs \<Longrightarrow> \<forall>b \<in> set flags. b \<Longrightarrow> boolean_index xs flags = xs"
  unfolding boolean_index_def
  by (induction flags xs rule: list_induct2) auto

lemma dropna_columns_id:
  assumes some: "\<forall>j < length (columns t). \<exists>row \<in> set (body t). snd row ! j \<noteq> None"
    and len: "\<forall>row \<in> set (body t). length (snd row) = length (columns t)"
  shows "dropna_columns t = t"
proof -
  let ?keep = "map (\<lambda>j. list_ex (\<lambda>row. snd row ! j \<noteq> None) (body t)) [0..<length (columns t)]"
  have all: "\<forall>b \<in> set ?keep. b"
    using some by (auto simp add: list_ex_iff)
  have cols: "boolean_index (columns t) ?keep = columns t"
    by (rule boolean_index_all) (use all in simp_all)
  have "boolean_index (snd row) ?keep = snd row" if "row \<in> set (body t)" for row
    by (rule boolean_index_all) (use all len that in simp_all)
  then have "map (\<lambda>(w, cells). (w, boolean_index cells ?keep)) (body t) = body t"
    by (intro map_idI) (auto simp add: case_prod_beta)
  with cols show ?thesis
    by (simp add: dropna_columns_def Let_def)
qed

lemma count_group_keys:
  "count_list (group_keys rs) (w, h) = length (filter (\<lambda>r. weekday r = Some w \<and> hour r = h) rs)"
  unfolding group_keys_def by (induction rs) (auto split: option.splits)

lemma set_group_keys:
  "set (group_keys rs) = {(w, hour r) | w r. r \<in> set rs \<and> weekday r = Some w}"
  unfolding group_keys_def by (auto split: option.splits)

lemma length_group_keys:
  "\<forall>r \<in> set rs. weekday r \<noteq> None \<Longrightarrow> length (group_keys rs) = length rs"
  unfolding group_keys_def by (induction rs) (auto split: option.splits)

lemma hours_group_keys:
  "\<forall>r \<in> set rs. weekday r \<noteq> None \<Longrightarrow> snd ` set (group_keys rs) = hour ` set rs"
  by (force simp add: set_group_keys)

lemma pivot_table_rows:
  assumes "\<forall>r \<in> set (rows sub). \<forall>w. weekday r = Some w \<longrightarrow> w \<in> set (weekday_cats sub)"
  shows "pivot_table observed sub =
    \<lparr>columns = sort (remdups (map snd (group_keys (rows sub)))),
     body = map (\<lambda>w. (w, map (\<lambda>h. if observed \<and> count_list (group_keys (rows sub)) (w, h) = 0
                                  then None
                                  else Some (count_list (group_keys (rows sub)) (w, h)))
                            (sort (remdups (map snd (group_keys (rows sub)))))))
                (if observed
                 then filter (\<lambda>w. w \<in> set (map fst (group_keys (rows sub)))) (weekday_cats sub)
                 else weekday_cats sub)\<rparr>"
proof -
  define keys where "keys = group_keys (rows sub)"
  define hours where "hours = sort (remdups (map snd keys))"
  define index where "index =
    (if observed then filter (\<lambda>w. w \<in> set (map fst keys)) (weekday_cats sub) else weekday_cats sub)"
  define cells where "cells =
    (\<lambda>w. map (\<lambda>h. if observed \<and> count_list keys (w, h) = 0 then None
                    else Some (count_list keys (w, h))) hours)"
  define t where "t = \<lparr>columns = hours, body = map (\<lambda>w. (w, cells w)) index\<rparr>"
  have some: "\<exists>row \<in> set (body t). snd row ! j \<noteq> None" if j: "j < length (columns t)" for j
  proof -
    from j have "hours ! j \<in> set hours"
      by (simp add: t_def)
    then have "hours ! j \<in> snd ` set keys"
      by (simp add: hours_def)
    then obtain w where k: "(w, hours ! j) \<in> set keys"
      by auto
    then obtain r where "r \<in> set (rows sub)" "weekday r = Some w"
      by (auto simp add: keys_def set_group_keys)
    with assms have wc: "w \<in> set (weekday_cats sub)"
      by blast
    from k have pos: "count_list keys (w, hours ! j) \<noteq> 0"
      by (simp add: count_list_0_iff)
    from k have "w \<in> fst ` set keys"
      by force
    with wc have "w \<in> set index"
      by (simp add: index_def)
    then have "(w, cells w) \<in> set (body t)"
      by (simp add: t_def)
    moreover have "snd (w, cells w) ! j \<noteq> None"
      using j pos by (simp add: cells_def t_def)
    ultimately show ?thesis ..
  qed
  have len: "\<forall>row \<in> set (body t). length (snd row) = length (columns t)"
    by (auto simp add: t_def cells_def)
  have "dropna_columns t = t"
    using some len by (intro dropna_columns_id) simp_all
  moreover have "pivot_table observed sub = dropna_columns t"
    unfolding pivot_table_def Let_def t_def cells_def index_def hours_def keys_def ..
  ultimately have "pivot_table observed sub = t"
    by simp
  then show ?thesis
    unfolding t_def cells_def index_def hours_def keys_def .
qed

lemma fill_cell:
  "(case (if b \<and> n = 0 then None else Some n) of None \<Rightarrow> Some (0::nat) | Some m \<Rightarrow> Some m) = Some n"
  by simp

lemma map_of_graph: "map_of (map (\<lambda>k. (k, f k)) ks) k = (if k \<in> set ks then Some (f k) else None)"
  by (simp add: map_of_map_restrict restrict_map_def)

lemma heatmap_data_rows:
  assumes "\<forall>r \<in> set (rows sub). \<forall>w. weekday r = Some w \<longrightarrow> w \<in> set (weekday_cats sub)"
  shows "heatmap_data observed labels sub =
    \<lparr>columns = sort (remdups (map snd (group_keys (rows sub)))),
     body = map (\<lambda>w. (w,
        if w \<in> set (weekday_cats sub) \<and> (observed \<longrightarrow> w \<in> fst ` set (group_keys (rows sub)))
        then map (\<lambda>h. Some (count_list (group_keys (rows sub)) (w, h)))
               (sort (remdups (map snd (group_keys (rows sub)))))
        else replicate (length (sort (remdups (map snd (group_keys (rows sub)))))) None)) labels\<rparr>"
proof -
  define keys where "keys = group_keys (rows sub)"
  define hours where "hours = sort (remdups (map snd keys))"
  define index where "index =
    (if observed then filter (\<lambda>w. w \<in> set (map fst keys)) (weekday_cats sub) else weekday_cats sub)"
  define cells where "cells =
    (\<lambda>w. map (\<lambda>h. if observed \<and> count_list keys (w, h) = 0 then None
                    else Some (count_list keys (w, h))) hours)"
  define counts where "counts = (\<lambda>w. map (\<lambda>h. Some (count_list keys (w, h))) hours)"
  have p: "pivot_table observed sub = \<lparr>columns = hours, body = map (\<lambda>w. (w, cells w)) index\<rparr>"
    unfolding cells_def index_def hours_def keys_def by (rule pivot_table_rows [OF assms])
  have "map (\<lambda>c. case c of None \<Rightarrow> Some 0 | Some n \<Rightarrow> Some n) (cells w) = counts w" for w
    unfolding cells_def counts_def by (simp add: fill_cell del: split_paired_All)
  then have f: "fillna 0 (pivot_table observed sub) =
      \<lparr>columns = hours, body = map (\<lambda>w. (w, counts w)) index\<rparr>"
    by (simp add: p fillna_def)
  have i: "w \<in> set index \<longleftrightarrow>
      w \<in> set (weekday_cats sub) \<and> (observed \<longrightarrow> w \<in> fst ` set keys)" for w
    by (auto simp add: index_def)
  have "heatmap_data observed labels sub =
    \<lparr>columns = hours,
     body = map (\<lambda>w. (w, if w \<in> set (weekday_cats sub) \<and> (observed \<longrightarrow> w \<in> fst ` set keys)
                         then counts w else replicate (length hours) None)) labels\<rparr>"
    by (auto simp add: heatmap_data_def f reindex_rows_def map_of_graph i)
  then show ?thesis
    unfolding counts_def hours_def keys_def .
qed

lemma distinct_weekday_order: "distinct weekday_order"
  by (simp add: weekday_order_def)

lemma filtered_weekday:
  assumes "r \<in> set (rows (df_filtered (feature_engineering raws) c))"
  shows "weekday r \<in> Some ` set weekday_order"
proof -
  from assms have "r \<in> set (rows (feature_engineering raws))"
    and "weekday r \<in> Some ` set (selected_weekdays c)"
    by (simp_all add: rows_df_filtered)
  then show ?thesis
    by (auto simp add: rows_feature_engineering split: option.splits if_splits)
qed

lemma filtered_month:
  assumes "r \<in> set (rows (df_filtered (feature_engineering raws) c))"
  shows "month r \<in> Some ` set month_order"
proof -
  from assms have "r \<in> set (rows (feature_engineering raws))"
    and "month r \<in> Some ` set (selected_months c)"
    by (simp_all add: rows_df_filtered)
  then show ?thesis
    by (auto simp add: rows_feature_engineering split: option.splits if_splits)
qed

lemma filtered_cats:
  "\<forall>r \<in> set (rows (df_filtered (feature_engineering raws) c)).
     \<forall>w. weekday r = Some w \<longrightarrow> w \<in> set (weekday_cats (df_filtered (feature_engineering raws) c))"
proof (intro ballI allI impI)
  fix r w
  assume "r \<in> set (rows (df_filtered (feature_engineering raws) c))" and "weekday r = Some w"
  with filtered_weekday [of r raws c] have "w \<in> set weekday_order"
    by auto
  then show "w \<in> set (weekday_cats (df_filtered (feature_engineering raws) c))"
    by (simp add: cats_df_filtered cats_feature_engineering)
qed

lemma filtered_no_nan:
  "\<forall>r \<in> set (rows (df_filtered (feature_engineering raws) c)). weekday r \<noteq> None"
  using filtered_weekday [of _ raws c] by auto

lemma cell_at_heatmap:
  assumes "\<forall>r \<in> set (rows sub). \<forall>w. weekday r = Some w \<longrightarrow> w \<in> set (weekday_cats sub)"
    and "w \<in> set labels"
  shows "cell_at (heatmap_data observed labels sub) w h =
    (if h \<in> snd ` set (group_keys (rows sub))
     then Some (if w \<in> set (weekday_cats sub)
                   \<and> (observed \<longrightarrow> w \<in> fst ` set (group_keys (rows sub)))
                then Some (count_list (group_keys (rows sub)) (w, h)) else None)
     else None)"
proof -
  define keys where "keys = group_keys (rows sub)"
  define hours where "hours = sort (remdups (map snd keys))"
  have hs: "set hours = snd ` set keys"
    by (simp add: hours_def)
  have none: "replicate (length hours) None = map (\<lambda>h. None) hours"
    by (simp add: map_replicate_const)
  have "cell_at (heatmap_data observed labels sub) w h =
    (if h \<in> snd ` set keys
     then Some (if w \<in> set (weekday_cats sub) \<and> (observed \<longrightarrow> w \<in> fst ` set keys)
                then Some (count_list keys (w, h)) else None)
     else None)"
    unfolding heatmap_data_rows [OF assms(1)] cell_at_def
    unfolding keys_def [symmetric] hours_def [symmetric]
    using assms(2) by (auto simp add: map_of_graph none zip_rows_column hs
        simp del: replicate_eq_replicate)
  then show ?thesis
    unfolding keys_def .
qed

lemma cell_at_no_row:
  assumes "\<forall>r \<in> set (rows sub). \<forall>w. weekday r = Some w \<longrightarrow> w \<in> set (weekday_cats sub)"
    and "w \<notin> set labels"
  shows "cell_at (heatmap_data observed labels sub) w h = None"
  unfolding heatmap_data_rows [OF assms(1)] cell_at_def
  using assms(2) by (simp add: map_of_graph)

lemma occurs_group_keys:
  "w \<in> fst ` set (group_keys rs) \<longleftrightarrow> Some w \<in> weekday ` set rs"
  by (force simp add: set_group_keys)

text \<open>
  Claim C5, as the script has it. The heatmap table of a filtered frame has exactly the
  seven weekdays Monday to Sunday as its rows, in that order. Its columns are the hours
  that occur in the filtered frame, in ascending order; an hour without rows has no
  column. Every row has one cell per column. For a weekday that occurs in the filtered
  frame, and for every weekday when pandas groups with \<open>observed = False\<close>, the cell
  under an hour holds the number of rows with that weekday and that hour, 0 when there is
  none.
\<close>

theorem heatmap_weekdays_by_observed_hours:
  "let sub = df_filtered (feature_engineering raws) c;
       H = heatmap_data observed (weekday_options (feature_engineering raws)) sub
   in map fst (body H) =
        [''Monday'', ''Tuesday'', ''Wednesday'', ''Thursday'', ''Friday'', ''Saturday'', ''Sunday'']
      \<and> columns H = sorted_list_of_set (hour ` set (rows sub))
      \<and> (\<forall>(w, cells) \<in> set (body H). length cells = length (columns H))
      \<and> (\<forall>w \<in> set weekday_order. \<forall>h \<in> hour ` set (rows sub).
            (observed \<longrightarrow> Some w \<in> weekday ` set (rows sub)) \<longrightarrow>
            cell_at H w h =
              Some (Some (length (filter (\<lambda>r. weekday r = Some w \<and> hour r = h) (rows sub)))))
      \<and> (\<forall>w h. h \<notin> hour ` set (rows sub) \<longrightarrow> cell_at H w h = None)"
proof -
  define sub where "sub = df_filtered (feature_engineering raws) c"
  define H where "H = heatmap_data observed (weekday_options (feature_engineering raws)) sub"
  have opts: "weekday_options (feature_engineering raws) = weekday_order"
    by (simp add: weekday_options_def cats_feature_engineering)
  have cats: "weekday_cats sub = weekday_order"
    by (simp add: sub_def cats_df_filtered cats_feature_engineering)
  have vals: "\<forall>r \<in> set (rows sub). \<forall>w. weekday r = Some w \<longrightarrow> w \<in> set (weekday_cats sub)"
    unfolding sub_def by (rule filtered_cats)
  have hrs: "snd ` set (group_keys (rows sub)) = hour ` set (rows sub)"
    unfolding sub_def by (rule hours_group_keys [OF filtered_no_nan])
  have H: "H =
    \<lparr>columns = sort (remdups (map snd (group_keys (rows sub)))),
     body = map (\<lambda>w. (w,
        if w \<in> set (weekday_cats sub) \<and> (observed \<longrightarrow> w \<in> fst ` set (group_keys (rows sub)))
        then map (\<lambda>h. Some (count_list (group_keys (rows sub)) (w, h)))
               (sort (remdups (map snd (group_keys (rows sub)))))
        else replicate (length (sort (remdups (map snd (group_keys (rows sub)))))) None))
      weekday_order\<rparr>"
    unfolding H_def opts by (rule heatmap_data_rows [OF vals])
  have 1: "map fst (body H) =
      [''Monday'', ''Tuesday'', ''Wednesday'', ''Thursday'', ''Friday'', ''Saturday'', ''Sunday'']"
    by (subst H) (simp add: comp_def weekday_order_def)
  have "columns H = sort (remdups (map snd (group_keys (rows sub))))"
    by (subst H) simp
  also have "\<dots> = sorted_list_of_set (snd ` set (group_keys (rows sub)))"
    by (simp add: sorted_list_of_set_sort_remdups flip: set_map)
  finally have 2: "columns H = sorted_list_of_set (hour ` set (rows sub))"
    by (simp only: hrs)
  have 3: "\<forall>(w, cells) \<in> set (body H). length cells = length (columns H)"
    by (subst (1 2) H) auto
  have 4: "cell_at H w h =
      Some (Some (length (filter (\<lambda>r. weekday r = Some w \<and> hour r = h) (rows sub))))"
    if "w \<in> set weekday_order" "h \<in> hour ` set (rows sub)"
      "observed \<longrightarrow> Some w \<in> weekday ` set (rows sub)" for w h
    unfolding H_def opts cell_at_heatmap [OF vals that(1)]
    using that by (simp add: hrs cats occurs_group_keys count_group_keys)
  have 5: "cell_at H w h = None" if "h \<notin> hour ` set (rows sub)" for w h
  proof (cases "w \<in> set weekday_order")
    case True
    show ?thesis
      unfolding H_def opts cell_at_heatmap [OF vals True] using that by (simp add: hrs)
  next
    case False
    show ?thesis
      unfolding H_def opts by (rule cell_at_no_row [OF vals False])
  qed
  from 1 2 3 4 5 show ?thesis
    unfolding Let_def sub_def [symmetric] H_def [symmetric] by blast
qed

theorem heatmap_weekdays_by_observed_hours_witness:
  "''Tuesday'' \<in> set weekday_order
   \<and> 8 \<in> hour ` set (rows (df_filtered (feature_engineering sample) select_all))
   \<and> Some ''Tuesday'' \<in> weekday ` set (rows (df_filtered (feature_engineering sample) select_all))
   \<and> columns (heatmap_data True (weekday_options (feature_engineering sample))
        (df_filtered (feature_engineering sample) select_all)) = [8, 10]
   \<and> cell_at (heatmap_data True (weekday_options (feature_engineering sample))
        (df_filtered (feature_engineering sample) select_all)) ''Tuesday'' 8 = Some (Some 0)
   \<and> cell_at (heatmap_data True (weekday_options (feature_engineering sample))
        (df_filtered (feature_engineering sample) select_all)) ''Tuesday'' 10 = Some (Some 2)"
proof -
  note T = heatmap_weekdays_by_observed_hours [of sample select_all True, unfolded Let_def]
  note cols = T [THEN conjunct2, THEN conjunct1]
  note cells = T [THEN conjunct2, THEN conjunct2, THEN conjunct2, THEN conjunct1]
  have tue: "''Tuesday'' \<in> set weekday_order"
    by (simp add: weekday_order_def)
  have h8: "8 \<in> hour ` set (rows (df_filtered (feature_engineering sample) select_all))"
    by (simp add: sample_filtered_rows)
  have h10: "10 \<in> hour ` set (rows (df_filtered (feature_engineering sample) select_all))"
    by (simp add: sample_filtered_rows)
  have occ: "Some ''Tuesday''
      \<in> weekday ` set (rows (df_filtered (feature_engineering sample) select_all))"
    by (simp add: sample_filtered_rows)
  have "hour ` set (rows (df_filtered (feature_engineering sample) select_all)) = set [10, 8]"
    by (auto simp add: sample_filtered_rows)
  then have "sorted_list_of_set (hour ` set (rows (df_filtered (feature_engineering sample) select_all)))
      = [8, 10]"
    by (simp only: sorted_list_of_set_sort_remdups) simp
  with cols have c: "columns (heatmap_data True (weekday_options (feature_engineering sample))
        (df_filtered (feature_engineering sample) select_all)) = [8, 10]"
    by simp
  from cells [rule_format, OF tue h8] cells [rule_format, OF tue h10] c tue h8 occ
  show ?thesis
    by (simp add: sample_filtered_rows)
qed

lemma sample_tuesday_minor_heatmap:
  "heatmap_data observed (weekday_options (feature_engineering sample))
     (df_filtered (feature_engineering sample) select_tuesday_minor) =
   \<lparr>columns = [10],
    body = map (\<lambda>w. (w, if w = ''Tuesday'' then [Some 1]
                        else if observed then [None] else [Some 0])) weekday_order\<rparr>"
  by (subst heatmap_data_rows [OF filtered_cats])
    (simp add: sample_tuesday_minor_rows group_keys_def weekday_options_def
      cats_feature_engineering cats_df_filtered weekday_order_def)

text \<open>
  Against claim C5 as stated: for the selection that keeps one accident at 10 o'clock the
  table has the single column 10 under either pandas default, and no cell for Monday at
  hour 0.
\<close>

theorem heatmap_columns_are_sparse:
  "columns (heatmap_data False (weekday_options (feature_engineering sample))
      (df_filtered (feature_engineering sample) select_tuesday_minor)) = [10]
   \<and> columns (heatmap_data True (weekday_options (feature_engineering sample))
      (df_filtered (feature_engineering sample) select_tuesday_minor)) = [10]
   \<and> cell_at (heatmap_data False (weekday_options (feature_engineering sample))
      (df_filtered (feature_engineering sample) select_tuesday_minor)) ''Monday'' 0 = None
   \<and> cell_at (heatmap_data True (weekday_options (feature_engineering sample))
      (df_filtered (feature_engineering sample) select_tuesday_minor)) ''Monday'' 0 = None"
  by (simp add: sample_tuesday_minor_heatmap cell_at_def weekday_order_def)

section \<open>Totals of the chart data\<close>

lemma sum_list_sort_key: "sum_list (map g (sort_key k xs)) = sum_list (map (g::'a \<Rightarrow> nat) xs)"
proof -
  have "sum_mset (image_mset g (mset (sort_key k xs))) = sum_mset (image_mset g (mset xs))"
    by simp
  then show ?thesis
    by (simp only: sum_mset_sum_list flip: mset_map)
qed

lemma sum_value_counts: "sum_list (map snd (value_counts col)) = length col"
proof -
  have "sum_list (map snd (value_counts col)) = sum_list (map (count_list col) (unique col))"
    by (simp add: value_counts_def sum_list_sort_key comp_def)
  also have "\<dots> = sum (count_list col) (set (unique col))"
    by (rule sum_list_distinct_conv_sum_set) (rule distinct_unique)
  also have "\<dots> = length col"
    by (rule sum_count_set) (simp_all add: set_unique)
  finally show ?thesis .
qed

lemma sum_hourly_data: "sum_list (map snd (hourly_data sub)) = length (rows sub)"
  by (simp add: hourly_data_def sort_index_def sum_list_sort_key sum_value_counts)

lemma map_of_sort_key:
  "distinct (map fst xs) \<Longrightarrow> map_of (sort_key k xs) = map_of xs"
  by (subst map_of_inject_set) (simp_all add: distinct_keys_sort_key)

lemma weekday_data_rows:
  assumes "distinct (weekday_cats sub)"
  shows "weekday_data labels sub =
    map (\<lambda>w. (w, if w \<in> set (weekday_cats sub)
                  then Some (count_list (map weekday (rows sub)) (Some w)) else None)) labels"
proof -
  have "distinct (map fst (map (\<lambda>w. (w, count_list (map weekday (rows sub)) (Some w)))
      (weekday_cats sub)))"
    using assms by (simp add: comp_def)
  then show ?thesis
    by (simp add: weekday_data_def reindex_def cat_value_counts_def map_of_sort_key map_of_graph)
qed

lemma sum_categories:
  assumes "distinct cats" and "set col \<subseteq> Some ` set cats"
  shows "sum_list (map (\<lambda>w. count_list col (Some w)) cats) = length col"
proof -
  have "sum_list (map (\<lambda>w. count_list col (Some w)) cats)
      = sum (\<lambda>w. count_list col (Some w)) (set cats)"
    by (rule sum_list_distinct_conv_sum_set) (rule assms(1))
  also have "\<dots> = sum (count_list col) (Some ` set cats)"
    by (simp add: sum.reindex comp_def)
  also have "\<dots> = length col"
    by (rule sum_count_set) (use assms(2) in simp_all)
  finally show ?thesis .
qed

lemma sum_cross_counts:
  assumes "distinct ws" and "distinct hs" and "set keys \<subseteq> set ws \<times> set hs"
  shows "sum_list (map (\<lambda>w. sum_list (map (\<lambda>h. count_list keys (w, h)) hs)) ws) = length keys"
proof -
  have "sum_list (map (\<lambda>w. sum_list (map (\<lambda>h. count_list keys (w, h)) hs)) ws)
      = (\<Sum>w \<in> set ws. \<Sum>h \<in> set hs. count_list keys (w, h))"
    using assms(1,2) by (simp add: sum_list_distinct_conv_sum_set)
  also have "\<dots> = sum (count_list keys) (set ws \<times> set hs)"
    by (simp add: sum.cartesian_product)
  also have "\<dots> = length keys"
    by (rule sum_count_set) (use assms(3) in simp_all)
  finally show ?thesis .
qed

lemma nansum_Some: "nansum (map (\<lambda>h. Some (f h)) hs) = sum_list (map f hs)"
  by (simp add: nansum_def comp_def)

lemma nansum_None: "nansum (replicate n None) = 0"
  by (simp add: nansum_def)

lemma grand_total_heatmap:
  assumes vals: "\<forall>r \<in> set (rows sub). \<forall>w. weekday r = Some w \<longrightarrow> w \<in> set (weekday_cats sub)"
    and dist: "distinct (weekday_cats sub)"
  shows "grand_total (heatmap_data observed (weekday_cats sub) sub) = length (group_keys (rows sub))"
proof -
  define keys where "keys = group_keys (rows sub)"
  define hours where "hours = sort (remdups (map snd keys))"
  define row where "row = (\<lambda>w.
    if w \<in> set (weekday_cats sub) \<and> (observed \<longrightarrow> w \<in> fst ` set keys)
    then map (\<lambda>h. Some (count_list keys (w, h))) hours
    else replicate (length hours) None)"
  have H: "heatmap_data observed (weekday_cats sub) sub =
      \<lparr>columns = hours, body = map (\<lambda>w. (w, row w)) (weekday_cats sub)\<rparr>"
    unfolding row_def hours_def keys_def by (rule heatmap_data_rows [OF vals])
  have row_sum: "nansum (row w) = sum_list (map (\<lambda>h. count_list keys (w, h)) hours)"
    if "w \<in> set (weekday_cats sub)" for w
  proof (cases "observed \<longrightarrow> w \<in> fst ` set keys")
    case True
    with that show ?thesis
      by (simp add: row_def nansum_Some)
  next
    case False
    then have "w \<notin> fst ` set keys"
      by simp
    then have "(w, h) \<notin> set keys" for h
      by (metis fst_conv imageI)
    then have "count_list keys (w, h) = 0" for h
      by (simp add: count_list_0_iff)
    with False that show ?thesis
      by (simp add: row_def nansum_None)
  qed
  have "grand_total (heatmap_data observed (weekday_cats sub) sub) =
      sum_list (map (\<lambda>w. nansum (row w)) (weekday_cats sub))"
    by (simp add: H grand_total_def comp_def)
  also have "\<dots> =
      sum_list (map (\<lambda>w. sum_list (map (\<lambda>h. count_list keys (w, h)) hours)) (weekday_cats sub))"
    by (simp add: row_sum cong: map_cong)
  also have "\<dots> = length keys"
  proof (rule sum_cross_counts)
    show "distinct (weekday_cats sub)"
      by (rule dist)
    show "distinct hours"
      by (simp add: hours_def)
    show "set keys \<subseteq> set (weekday_cats sub) \<times> set hours"
    proof (rule subsetI)
      fix p
      assume p: "p \<in> set keys"
      then obtain w r where "p = (w, hour r)" and "r \<in> set (rows sub)" and "weekday r = Some w"
        by (auto simp add: keys_def set_group_keys)
      with vals have "fst p \<in> set (weekday_cats sub)"
        by auto
      moreover from p have "snd p \<in> set hours"
        by (simp add: hours_def)
      ultimately show "p \<in> set (weekday_cats sub) \<times> set hours"
        by (simp add: mem_Times_iff)
    qed
  qed
  finally show ?thesis
    unfolding keys_def .
qed

text \<open>
  Claim C8. For every filtered frame the counts of the hourly series, the counts of the
  weekday series and the cells of the heatmap table each add up to the number of rows of
  the filtered frame.
\<close>

theorem chart_counts_sum_to_total:
  "let sub = df_filtered (feature_engineering raws) c
   in sum_list (map snd (hourly_data sub)) = length (rows sub)
      \<and> nansum (map snd (weekday_data (weekday_options (feature_engineering raws)) sub))
          = length (rows sub)
      \<and> grand_total (heatmap_data observed (weekday_options (feature_engineering raws)) sub)
          = length (rows sub)"
proof -
  define sub where "sub = df_filtered (feature_engineering raws) c"
  have opts: "weekday_options (feature_engineering raws) = weekday_cats sub"
    by (simp add: weekday_options_def sub_def cats_df_filtered)
  have cats: "weekday_cats sub = weekday_order"
    by (simp add: sub_def cats_df_filtered cats_feature_engineering)
  have dist: "distinct (weekday_cats sub)"
    by (simp add: cats distinct_weekday_order)
  have vals: "\<forall>r \<in> set (rows sub). \<forall>w. weekday r = Some w \<longrightarrow> w \<in> set (weekday_cats sub)"
    unfolding sub_def by (rule filtered_cats)
  have nonan: "\<forall>r \<in> set (rows sub). weekday r \<noteq> None"
    unfolding sub_def by (rule filtered_no_nan)
  have col: "set (map weekday (rows sub)) \<subseteq> Some ` set (weekday_cats sub)"
  proof -
    have "weekday r \<in> Some ` set weekday_order" if "r \<in> set (rows sub)" for r
      using that unfolding sub_def by (rule filtered_weekday)
    then show ?thesis
      unfolding cats by auto
  qed
  have 1: "sum_list (map snd (hourly_data sub)) = length (rows sub)"
    by (rule sum_hourly_data)
  have "nansum (map snd (weekday_data (weekday_cats sub) sub)) =
      sum_list (map (\<lambda>w. count_list (map weekday (rows sub)) (Some w)) (weekday_cats sub))"
    by (simp add: weekday_data_rows [OF dist] nansum_def comp_def cong: map_cong)
  also have "\<dots> = length (map weekday (rows sub))"
    by (rule sum_categories [OF dist col])
  finally have 2: "nansum (map snd (weekday_data (weekday_cats sub) sub)) = length (rows sub)"
    by simp
  have 3: "grand_total (heatmap_data observed (weekday_cats sub) sub) = length (rows sub)"
    by (simp add: grand_total_heatmap [OF vals dist] length_group_keys [OF nonan])
  from 1 2 3 show ?thesis
    unfolding Let_def sub_def [symmetric] opts by simp
qed

theorem chart_counts_sum_to_total_witness:
  "length (rows (df_filtered (feature_engineering sample) select_all)) = 3
   \<and> sum_list (map snd (hourly_data (df_filtered (feature_engineering sample) select_all))) = 3
   \<and> nansum (map snd (weekday_data (weekday_options (feature_engineering sample))
        (df_filtered (feature_engineering sample) select_all))) = 3
   \<and> grand_total (heatmap_data True (weekday_options (feature_engineering sample))
        (df_filtered (feature_engineering sample) select_all)) = 3
   \<and> grand_total (heatmap_data False (weekday_options (feature_engineering sample))
        (df_filtered (feature_engineering sample) select_all)) = 3"
  using chart_counts_sum_to_total [of sample select_all True]
    chart_counts_sum_to_total [of sample select_all False]
  by (simp add: Let_def sample_filtered_rows)

end
